theory Spec2Isabelle
  imports Main "HOL-Library.Word" "HOL-Library.Sublist"
begin

section \<open>The node behind the RPC client\<close>

text \<open>
  Errors thrown by JavaScript code. The constructor is the error's class, the string its
  \<open>message\<close> property.
\<close>

datatype js_error = Error string | TypeError string | ReferenceError string

fun message :: "js_error \<Rightarrow> string" where
  "message (Error m) = m"
| "message (TypeError m) = m"
| "message (ReferenceError m) = m"

text \<open>
  A receipt as the node hands it out: \<open>status\<close> is the raw hex string (\<open>0x0\<close> for a
  failed execution, \<open>0x1\<close> for a successful one) and is absent on receipts of nodes that
  do not report one. \<open>gas\<close> is the gas limit of a transaction record.
\<close>

record receipt =
  transactionHash :: string
  status :: "string option"
  gasUsed :: int

record transactionData =
  gas :: int

text \<open>
  The unsigned transaction object built in \<open>makeTransaction\<close>; its keys \<open>nonce\<close>,
  \<open>gasPrice\<close>, \<open>gasLimit\<close>, \<open>to\<close> and \<open>data\<close> carry the prefix \<open>tx_\<close> here, the
  plain names being the function's parameters and locals.
\<close>

record transaction =
  tx_nonce :: string
  tx_gasPrice :: string
  tx_gasLimit :: string
  tx_to :: "string option"
  tx_data :: string

text \<open>
  What a run does to the outside, in the order it does it: the calls to the node, the
  sleeps, and the lines handed to the logger.
\<close>

datatype event =
    EstimateGas string string "string option"
  | GetTransactionCount string
  | GasPrice
  | SendRawTransaction string
  | GetTransactionReceipt string
  | GetTransaction string
  | Timeout int
  | LogTracking string int
  | LogCompleted string
  | LogError js_error

text \<open>
  The libraries the module calls, over a node state \<open>'n\<close> of any kind. Every call to the
  node answers a value or throws, and leaves the node in a new state, so a node may answer
  the same question differently each time it is asked. \<open>toHex\<close> is web3's number
  encoding; \<open>serialize\<close> stands for building, signing and serialising the transaction
  with ethereumjs-tx under a private key, which throws on a bad key or field.
\<close>

record 'n env =
  eth_estimateGas :: "string \<Rightarrow> string \<Rightarrow> string option \<Rightarrow> 'n \<Rightarrow> (js_error + int) \<times> 'n"
  eth_getTransactionCount :: "string \<Rightarrow> 'n \<Rightarrow> (js_error + int) \<times> 'n"
  eth_gasPrice :: "'n \<Rightarrow> (js_error + int) \<times> 'n"
  eth_sendRawTransaction :: "string \<Rightarrow> 'n \<Rightarrow> (js_error + string) \<times> 'n"
  eth_getTransactionReceipt :: "string \<Rightarrow> 'n \<Rightarrow> (js_error + receipt option) \<times> 'n"
  eth_getTransaction :: "string \<Rightarrow> 'n \<Rightarrow> (js_error + transactionData option) \<times> 'n"
  toHex :: "int \<Rightarrow> string"
  serialize :: "transaction \<Rightarrow> string \<Rightarrow> js_error + string"

text \<open>The outcome of an asynchronous method: its value or error, the node, the events.\<close>

type_synonym ('a, 'n) outcome = "(js_error + 'a) \<times> 'n \<times> event list"

section \<open>lib/ethereum.js: tracking a transaction\<close>

definition getTransactionReceipt :: "'n env \<Rightarrow> string \<Rightarrow> 'n \<Rightarrow> (receipt option, 'n) outcome" where
  "getTransactionReceipt w txhash n =
     (case eth_getTransactionReceipt w txhash n of
        (r, n') \<Rightarrow> (r, n', [GetTransactionReceipt txhash]))"

definition not_mined_error :: js_error where
  "not_mined_error = Error ''It's 1 hour and not mined since''"

definition not_reached_error :: js_error where
  "not_reached_error = Error ''Not reached to blockchain nodes''"

text \<open>
  Lines 121 to 126 of \<open>waitForTransactionReceipt\<close>: inside the window the node is
  asked for the transaction, and a falsy answer throws.
\<close>

definition propagation_check :: "'n env \<Rightarrow> string \<Rightarrow> int \<Rightarrow> 'n \<Rightarrow> (unit, 'n) outcome" where
  "propagation_check w txhash time n =
     (if time > 60000 \<and> time \<le> 70000 then
        (case eth_getTransaction w txhash n of
           (Inl err, n') \<Rightarrow> (Inl err, n', [GetTransaction txhash])
         | (Inr transactionData, n') \<Rightarrow>
             (if transactionData = None
              then (Inl not_reached_error, n', [GetTransaction txhash])
              else (Inr (), n', [GetTransaction txhash])))
      else (Inr (), n, []))"

text \<open>
  \<open>waitForTransactionReceipt\<close>, lines 115 to 134, with \<open>time\<close> the elapsed
  milliseconds (0 when the caller gives none). Each invocation logs the tracking line and
  queries the receipt, then tests the hour, then the window, and only then looks at the
  receipt: \<open>null\<close> sleeps 5000 ms and polls again with \<open>time + 5000\<close>, anything else is
  returned. The recursion ends, since past 3,600,000 an invocation throws.
\<close>

function waitForTransactionReceipt ::
  "'n env \<Rightarrow> string \<Rightarrow> int \<Rightarrow> 'n \<Rightarrow> (receipt, 'n) outcome" where
  "waitForTransactionReceipt w txhash time n =
     (case getTransactionReceipt w txhash n of
        (Inl err, n1, ev1) \<Rightarrow> (Inl err, n1, LogTracking txhash time # ev1)
      | (Inr receipt, n1, ev1) \<Rightarrow>
          (if time > 3600000 then (Inl not_mined_error, n1, LogTracking txhash time # ev1)
           else
             (case propagation_check w txhash time n1 of
                (Inl err, n2, ev2) \<Rightarrow> (Inl err, n2, LogTracking txhash time # ev1 @ ev2)
              | (Inr u, n2, ev2) \<Rightarrow>
                  (case receipt of
                     None \<Rightarrow>
                       (case waitForTransactionReceipt w txhash (time + 5000) n2 of
                          (res, n3, ev3) \<Rightarrow>
                            (res, n3, LogTracking txhash time # ev1 @ ev2 @ Timeout 5000 # ev3))
                   | Some r \<Rightarrow>
                       (Inr r, n2, LogTracking txhash time # ev1 @ ev2 @ [LogCompleted txhash])))))"
  by pat_completeness auto
termination
  by (relation "measure (\<lambda>(w, txhash, time, n). nat (3605000 - time))") auto

declare waitForTransactionReceipt.simps [simp del]

text \<open>
  Reading a run's events. Every invocation of \<open>waitForTransactionReceipt\<close> logs its
  elapsed time first, so the polls of a run are dated by these lines, and a propagation
  probe by the line logged last before it.
\<close>

fun poll_times :: "event list \<Rightarrow> int list" where
  "poll_times [] = []"
| "poll_times (LogTracking txhash time # es) = time # poll_times es"
| "poll_times (e # es) = poll_times es"

fun probe_times :: "int \<Rightarrow> event list \<Rightarrow> int list" where
  "probe_times cur [] = []"
| "probe_times cur (LogTracking txhash time # es) = probe_times time es"
| "probe_times cur (GetTransaction txhash # es) = cur # probe_times cur es"
| "probe_times cur (e # es) = probe_times cur es"

text \<open>
  What one invocation at elapsed \<open>time\<close> does when it finds no receipt, the probe (if it
  is made) finds the transaction, and the hour is not over: to the outside, and to the
  node.
\<close>

definition pending_poll :: "string \<Rightarrow> int \<Rightarrow> event list" where
  "pending_poll txhash time =
     LogTracking txhash time # GetTransactionReceipt txhash #
     (if 60000 < time \<and> time \<le> 70000 then [GetTransaction txhash] else []) @ [Timeout 5000]"

definition pending_node :: "'n env \<Rightarrow> string \<Rightarrow> int \<Rightarrow> 'n \<Rightarrow> 'n" where
  "pending_node w txhash time n =
     (let n1 = snd (eth_getTransactionReceipt w txhash n)
      in if 60000 < time \<and> time \<le> 70000 then snd (eth_getTransaction w txhash n1) else n1)"

section \<open>lib/ethereum.js: submitting a transaction\<close>

text \<open>
  Line 75: \<open>config.gasLimit || this.web3.eth.estimateGas({data, from, to})\<close>. A configured
  limit that is absent or zero is falsy, and the node is asked for an estimate.
\<close>

definition resolve_gasLimit ::
  "'n env \<Rightarrow> int option \<Rightarrow> string \<Rightarrow> string \<Rightarrow> string option \<Rightarrow> 'n \<Rightarrow> (int, 'n) outcome" where
  "resolve_gasLimit w config_gasLimit data from to n =
     (if config_gasLimit \<noteq> None \<and> config_gasLimit \<noteq> Some 0
      then (Inr (the config_gasLimit), n, [])
      else (case eth_estimateGas w data from to n of
              (r, n') \<Rightarrow> (r, n', [EstimateGas data from to])))"

text \<open>
  JavaScript's \<open>+\<close> on two numbers. The numbers here are whole, and a whole number is a
  double as long as 53 bits hold it; a sum past that is rounded to the nearest double,
  a tie going to the even one. (A sum of 2 ^ 1024 or more would be \<open>Infinity\<close>; the
  model rounds it like the rest.)
\<close>

fun bit_length :: "nat \<Rightarrow> nat" where
  "bit_length k = (if k = 0 then 0 else Suc (bit_length (k div 2)))"

declare bit_length.simps [simp del]

definition to_double :: "int \<Rightarrow> int" where
  "to_double x =
     (if \<bar>x\<bar> \<le> 2 ^ 53 then x
      else (let ulp = 2 ^ (bit_length (nat \<bar>x\<bar>) - 53);
                q = \<bar>x\<bar> div ulp;
                r = \<bar>x\<bar> mod ulp;
                m = (if 2 * r < ulp \<or> (2 * r = ulp \<and> even q) then q else q + 1)
            in sgn x * (m * ulp)))"

definition js_add :: "int \<Rightarrow> int \<Rightarrow> int" where
  "js_add a b = to_double (a + b)"

text \<open>
  The \<open>try\<close> block, lines 75 to 94: gas limit, transaction count, gas price, the
  transaction with nonce \<open>nonce + attempt\<close>, signing, submission. The first call that
  throws ends the block with its error. The two reads of line 76 to 79 are calls of
  web3's synchronous interface written as the elements of an array: the count is read
  first, and the gas price is asked for once that read has returned.
\<close>

definition makeTransaction_try ::
  "'n env \<Rightarrow> int option \<Rightarrow> string \<Rightarrow> string \<Rightarrow> string \<Rightarrow> string option \<Rightarrow> int \<Rightarrow> 'n
     \<Rightarrow> (string, 'n) outcome" where
  "makeTransaction_try w config_gasLimit data from privatekey to attempt n =
     (case resolve_gasLimit w config_gasLimit data from to n of
        (Inl err, n1, ev1) \<Rightarrow> (Inl err, n1, ev1)
      | (Inr gasLimit, n1, ev1) \<Rightarrow>
     (case eth_getTransactionCount w from n1 of
        (Inl err, n2) \<Rightarrow> (Inl err, n2, ev1 @ [GetTransactionCount from])
      | (Inr nonce, n2) \<Rightarrow>
     (case eth_gasPrice w n2 of
        (Inl err, n3) \<Rightarrow> (Inl err, n3, ev1 @ [GetTransactionCount from, GasPrice])
      | (Inr gasprice, n3) \<Rightarrow>
     (case serialize w
             \<lparr>tx_nonce = toHex w (js_add nonce attempt), tx_gasPrice = toHex w gasprice,
              tx_gasLimit = toHex w gasLimit, tx_to = to, tx_data = data\<rparr> privatekey of
        Inl err \<Rightarrow> (Inl err, n3, ev1 @ [GetTransactionCount from, GasPrice])
      | Inr serializedTransaction \<Rightarrow>
     (case eth_sendRawTransaction w (''0x'' @ serializedTransaction) n3 of
        (r, n4) \<Rightarrow>
          (r, n4, ev1 @ [GetTransactionCount from, GasPrice,
                         SendRawTransaction (''0x'' @ serializedTransaction)]))))))"

text \<open>
  The names of the source that resolve inside the \<open>catch\<close> block of
  \<open>makeTransaction\<close>: the catch binding, the function's parameters, and the bindings at
  the top of the module. The \<open>const\<close> declarations of the \<open>try\<close> block (\<open>gasLimit\<close>,
  \<open>nonce\<close>, \<open>gasprice\<close>, \<open>transaction\<close> and the rest) are scoped to that block and are
  not among them; nor does the repository put a \<open>gasLimit\<close> on the global object.
\<close>

definition catch_scope :: "string list" where
  "catch_scope =
     [''error'', ''data'', ''from'', ''privatekey'', ''to'', ''attempt'',
      ''fs'', ''_'', ''path'', ''Web3'', ''solc'', ''config'', ''Transaction'', ''logger'',
      ''Ethereum'']"

text \<open>
  Evaluating names left to right: the first one that does not resolve throws.
\<close>

fun resolves :: "string list \<Rightarrow> string list \<Rightarrow> js_error option" where
  "resolves scope [] = None"
| "resolves scope (x # xs) =
     (if x \<in> set scope then resolves scope xs
      else Some (ReferenceError (x @ '' is not defined'')))"

text \<open>
  \<open>makeTransaction\<close>, lines 73 to 109. In the \<open>catch\<close> block the retry is the call
  \<open>this.makeTransaction(data, from, privatekey, gasLimit, to, attempt + 1)\<close>. Its arguments
  are evaluated first, left to right, and a name that does not resolve throws out of the
  \<open>catch\<close> block before the call is made. \<open>retry\<close> stands for the call itself, whatever
  it would do with the six arguments; it runs only if they all resolve.
\<close>

definition makeTransaction ::
  "'n env \<Rightarrow> ('n \<Rightarrow> (string, 'n) outcome) \<Rightarrow> int option \<Rightarrow> string \<Rightarrow> string \<Rightarrow> string
     \<Rightarrow> string option \<Rightarrow> int \<Rightarrow> 'n \<Rightarrow> (string, 'n) outcome" where
  "makeTransaction w retry config_gasLimit data from privatekey to attempt n =
     (case makeTransaction_try w config_gasLimit data from privatekey to attempt n of
        (Inr txhash, n', ev) \<Rightarrow> (Inr txhash, n', ev)
      | (Inl error, n', ev) \<Rightarrow>
          (if attempt < 3 \<and> message error = ''nonce too low''
           then (case resolves catch_scope
                        [''data'', ''from'', ''privatekey'', ''gasLimit'', ''to'', ''attempt''] of
                   Some reference_error \<Rightarrow> (Inl reference_error, n', ev @ [LogError error])
                 | None \<Rightarrow>
                     (case retry n' of
                        (res, n'', ev') \<Rightarrow> (res, n'', ev @ LogError error # ev')))
           else (Inl error, n', ev @ [LogError error])))"

section \<open>app/controllers/transaction.controller.js\<close>

text \<open>The \<open>status\<close> table of the controller: each entry an object, key by key.\<close>

datatype status_key = NOT_REACHED | PENDING | REVERTED | OUTOFGAS | SUCCESS

fun status_table :: "status_key \<Rightarrow> (string \<times> string) list" where
  "status_table NOT_REACHED =
     [(''status'', ''NOT_REACHED''),
      (''message'', ''Transaction does not reached to blockchain nodes!'')]"
| "status_table PENDING =
     [(''status'', ''PENDING''), (''message'', ''Trasaction is in Pending State'')]"
| "status_table REVERTED =
     [(''status'', ''FAILED''), (''message'', ''Transaction Failed''),
      (''possibleReason'', ''REVERTED'')]"
| "status_table OUTOFGAS =
     [(''status'', ''FAILED''), (''message'', ''Transaction Failed''),
      (''possibleReason'', ''Out of Gas'')]"
| "status_table SUCCESS =
     [(''status'', ''SUCCESS''), (''message'', ''Transaction Completed Successfully!'')]"

text \<open>The two calls the controller makes on the Responder, with their argument.\<close>

datatype response =
    Responder_success "(string \<times> string) list"
  | Responder_operationFailed js_error

text \<open>
  The members of the object that lib/ethereum.js exports: the fields its constructor
  sets and the methods that class \<open>Ethereum\<close> declares.
\<close>

definition Ethereum_members :: "string list" where
  "Ethereum_members =
     [''web3'', ''contracts'', ''contracts_folder'',
      ''constructor'', ''loadContracts'', ''loadContract'', ''deployContract'',
      ''callContractFunction'', ''makeTransaction'', ''getTransactionReceipt'',
      ''waitForTransactionReceipt'', ''toAscii'', ''_timeout'', ''_createDeployableContract'']"

text \<open>
  \<open>Ethereum.name(...)\<close>: a name the object does not carry evaluates to \<open>undefined\<close>, and
  calling it throws a TypeError; otherwise the member's body runs.
\<close>

definition call_member :: "string \<Rightarrow> ('n \<Rightarrow> ('a, 'n) outcome) \<Rightarrow> 'n \<Rightarrow> ('a, 'n) outcome" where
  "call_member name body n =
     (if name \<in> set Ethereum_members then body n
      else (Inl (TypeError (''Ethereum.'' @ name @ '' is not a function'')), n, []))"

text \<open>
  \<open>getTransactionStatus\<close>, lines 30 to 51; the result is the call made on the Responder.
  \<open>getTransaction\<close> stands for the body of a member of that name, whatever it would
  answer for a hash; it runs only if the object carries the member. Reading \<open>.gas\<close> of a
  missing transaction record throws.
\<close>

definition getTransactionStatus ::
  "'n env \<Rightarrow> (string \<Rightarrow> 'n \<Rightarrow> (transactionData option, 'n) outcome) \<Rightarrow> string \<Rightarrow> 'n
     \<Rightarrow> response \<times> 'n \<times> event list" where
  "getTransactionStatus w getTransaction txhash n =
     (case call_member ''getTransactionReceipt'' (getTransactionReceipt w txhash) n of
        (Inl err, n1, ev1) \<Rightarrow> (Responder_operationFailed err, n1, ev1)
      | (Inr None, n1, ev1) \<Rightarrow>
          (case call_member ''getTransaction'' (getTransaction txhash) n1 of
             (Inl err, n2, ev2) \<Rightarrow> (Responder_operationFailed err, n2, ev1 @ ev2)
           | (Inr transaction, n2, ev2) \<Rightarrow>
               (if transaction = None
                then (Responder_success (status_table NOT_REACHED), n2, ev1 @ ev2)
                else (Responder_success (status_table PENDING), n2, ev1 @ ev2)))
      | (Inr (Some reciept), n1, ev1) \<Rightarrow>
          (if status reciept = Some ''0x0'' then
             (case call_member ''getTransaction'' (getTransaction txhash) n1 of
                (Inl err, n2, ev2) \<Rightarrow> (Responder_operationFailed err, n2, ev1 @ ev2)
              | (Inr None, n2, ev2) \<Rightarrow>
                  (Responder_operationFailed
                     (TypeError ''Cannot read property 'gas' of null''), n2, ev1 @ ev2)
              | (Inr (Some transaction), n2, ev2) \<Rightarrow>
                  (if gasUsed reciept = gas transaction
                   then (Responder_success (status_table OUTOFGAS), n2, ev1 @ ev2)
                   else (Responder_success (status_table REVERTED), n2, ev1 @ ev2)))
           else (Responder_success (status_table SUCCESS), n1, ev1)))"

section \<open>contract/escrow.sol\<close>

text \<open>
  The file holds two versions of the contract, one after the other. Both declare
  \<open>positiveVerdict\<close>; the second version's names carry the prefix \<open>legacy\<close> where the
  two differ in shape.
\<close>

type_synonym address = "160 word"
type_synonym uint256 = "256 word"

datatype JobState = Absent | Created | Assigned | Completed | Arbitration | Paid | Unacceptable

record Job =
  description :: "8 word list"
  vodiant :: address
  vodeer :: address
  vodiantTokensStaked :: uint256
  payoutStartTime :: uint256
  arbitrationTime :: uint256
  arbiter :: address
  vodiantDissatisfied :: bool
  status :: JobState

record Escrow =
  admins :: "address list"
  nonce :: uint256
  token :: address
  payoutPeriod :: uint256
  jobDetails :: "uint256 \<Rightarrow> Job"

record legacy_Job =
  description :: "8 word list"
  vodiant :: address
  vodeer :: address
  vodeerTokensStaked :: uint256
  vodiantTokensStaked :: uint256
  arbiter :: address
  vodiantDissatisfied :: bool
  status :: JobState

record legacy_Escrow =
  admins :: "address list"
  nonce :: uint256
  token :: address
  jobDetails :: "uint256 \<Rightarrow> legacy_Job"

text \<open>
  A call that ends in a revert leaves no trace in storage: the result is the reason alone.
  \<open>Require\<close> carries the message of a failed \<open>require\<close>, \<open>Assert\<close> is a failed
  \<open>assert\<close>, \<open>Callee\<close> a revert inside the token contract.
\<close>

datatype revert = Require string | Assert | Callee



text \<open>
  \<open>SafeMath.add\<close> and \<open>SafeMath.sub\<close>: the sum wraps, and the assertion catches the wrap;
  the difference is taken only if it does not go below zero.
\<close>

definition add :: "uint256 \<Rightarrow> uint256 \<Rightarrow> revert + uint256" where
  "add a b = (let c = a + b in if c \<ge> a then Inr c else Inl Assert)"







section \<open>Concrete nodes and contract states\<close>

text \<open>web3's \<open>toHex\<close> on a number, and a serialisation that keeps the fields readable.\<close>

fun hex_digits :: "nat \<Rightarrow> string" where
  "hex_digits k =
     (if k < 16 then [''0123456789abcdef'' ! k]
      else hex_digits (k div 16) @ [''0123456789abcdef'' ! (k mod 16)])"

declare hex_digits.simps [simp del]

definition number_toHex :: "int \<Rightarrow> string" where
  "number_toHex i =
     (if i < 0 then ''-0x'' @ hex_digits (nat (- i)) else ''0x'' @ hex_digits (nat i))"

definition plain_serialize :: "transaction \<Rightarrow> string \<Rightarrow> js_error + string" where
  "plain_serialize tx privatekey =
     Inr (''[nonce '' @ tx_nonce tx @ '', gasPrice '' @ tx_gasPrice tx @ '', gasLimit '' @
          tx_gasLimit tx @ '']'')"

text \<open>
  A node whose state is a counter of the receipt queries it has answered. It knows the
  transaction, has no receipt for it, accepts what is submitted, and reports a
  transaction count of seven plus the counter.
\<close>

definition base_node :: "nat env" where
  "base_node =
     \<lparr>eth_estimateGas = (\<lambda>data from to k. (Inr 21000, k)),
      eth_getTransactionCount = (\<lambda>from k. (Inr (7 + int k), k)),
      eth_gasPrice = (\<lambda>k. (Inr 20, k)),
      eth_sendRawTransaction = (\<lambda>raw k. (Inr ''0xfeed'', k)),
      eth_getTransactionReceipt = (\<lambda>txhash k. (Inr None, Suc k)),
      eth_getTransaction = (\<lambda>txhash k. (Inr (Some \<lparr>gas = 50000\<rparr>), k)),
      toHex = number_toHex,
      serialize = plain_serialize\<rparr>"

text \<open>The same node with a receipt from its \<open>k\<close>-th receipt query on.\<close>

definition mining_node :: "nat \<Rightarrow> receipt \<Rightarrow> nat env" where
  "mining_node k r =
     base_node\<lparr>eth_getTransactionReceipt :=
                 (\<lambda>txhash j. (if j < k then Inr None else Inr (Some r), Suc j))\<rparr>"

text \<open>The same node rejecting every submission as a nonce collision.\<close>

definition collision_node :: "nat env" where
  "collision_node =
     base_node\<lparr>eth_sendRawTransaction := (\<lambda>raw k. (Inl (Error ''nonce too low''), k))\<rparr>"

text \<open>
  The same node in a nonce race: the first submission it sees is rejected as a nonce
  collision, and any later one is accepted. The counter counts submissions too, so the
  count it reports after the rejected submission is 8.
\<close>

definition racing_node :: "nat env" where
  "racing_node =
     base_node\<lparr>eth_sendRawTransaction :=
                 (\<lambda>raw k. (if k = 0 then Inl (Error ''nonce too low'') else Inr ''0xfeed'',
                            Suc k))\<rparr>"

text \<open>The same node with the transaction count out of reach: that read throws.\<close>

definition countless_node :: "nat env" where
  "countless_node =
     base_node\<lparr>eth_getTransactionCount :=
                 (\<lambda>from k. (Inl (Error ''Invalid JSON RPC response''), k))\<rparr>"

text \<open>A sender, its private key, a recipient and a payload, in the form the libraries take.\<close>

definition alice :: string where
  "alice = ''0x00a329c0648769a73afac7f9381e08fb43dbea72''"

definition alice_key :: string where
  "alice_key = ''4d5db4107d237df6a3d58ee5f70ae63d73d7658d4026f2eefd2f204c81682cb7''"

definition bob :: string where
  "bob = ''0x0d1d4e623d10f9fba5db95830f7d3839406c6af2''"

definition payload :: string where
  "payload = ''0x6060604052''"

text \<open>The same node without any record of the transaction.\<close>

definition forgetful_node :: "nat env" where
  "forgetful_node = base_node\<lparr>eth_getTransaction := (\<lambda>txhash k. (Inr None, k))\<rparr>"

definition failed_receipt :: receipt where
  "failed_receipt = \<lparr>transactionHash = ''0xfeed'', receipt.status = Some ''0x0'', gasUsed = 50000\<rparr>"

definition mined_receipt :: receipt where
  "mined_receipt = \<lparr>transactionHash = ''0xfeed'', receipt.status = Some ''0x1'', gasUsed = 21000\<rparr>"

definition bare_receipt :: receipt where
  "bare_receipt = \<lparr>transactionHash = ''0xfeed'', receipt.status = None, gasUsed = 21000\<rparr>"

text \<open>A retry and a \<open>getTransaction\<close> body for the places that take one.\<close>

definition no_retry :: "nat \<Rightarrow> (string, nat) outcome" where
  "no_retry k = (Inr ''0xbeef'', k, [])"

definition node_getTransaction :: "'n env \<Rightarrow> string \<Rightarrow> 'n \<Rightarrow> (transactionData option, 'n) outcome" where
  "node_getTransaction w txhash n =
     (case eth_getTransaction w txhash n of (r, n') \<Rightarrow> (r, n', [GetTransaction txhash]))"







section \<open>Facts about the model\<close>

lemma number_toHex_examples:
  "number_toHex 7 = ''0x7''" "number_toHex 10 = ''0xa''"
  "number_toHex 20 = ''0x14''" "number_toHex 21000 = ''0x5208''"
  by (simp_all add: number_toHex_def hex_digits.simps)

lemma js_add_exact: "\<bar>a + b\<bar> \<le> 2 ^ 53 \<Longrightarrow> js_add a b = a + b"
  by (simp add: js_add_def to_double_def)

lemma js_add_examples: "js_add 7 0 = 7" "js_add 7 1 = 8" "js_add 9 1 = 10"
  by (simp_all add: js_add_def to_double_def)

text \<open>Past 53 bits the sum is rounded: 2 ^ 53 + 1 is not a double.\<close>

lemma js_add_rounds: "js_add 9007199254740992 1 = 9007199254740992"
  by (simp add: js_add_def to_double_def Let_def bit_length.simps)

lemma gasLimit_unbound:
  "resolves catch_scope [''data'', ''from'', ''privatekey'', ''gasLimit'', ''to'', ''attempt'']
     = Some (ReferenceError ''gasLimit is not defined'')"
  by (simp add: catch_scope_def)

lemma getTransaction_not_member: "''getTransaction'' \<notin> set Ethereum_members"
  by (simp add: Ethereum_members_def)

lemma getTransactionReceipt_member: "''getTransactionReceipt'' \<in> set Ethereum_members"
  by (simp add: Ethereum_members_def)

text \<open>The \<open>catch\<close> block of \<open>makeTransaction\<close> with the name lookup carried out.\<close>

lemma makeTransaction_unfold:
  "makeTransaction w retry config_gasLimit data from privatekey to attempt n =
     (case makeTransaction_try w config_gasLimit data from privatekey to attempt n of
        (Inr txhash, n', ev) \<Rightarrow> (Inr txhash, n', ev)
      | (Inl error, n', ev) \<Rightarrow>
          (if attempt < 3 \<and> message error = ''nonce too low''
           then (Inl (ReferenceError ''gasLimit is not defined''), n', ev @ [LogError error])
           else (Inl error, n', ev @ [LogError error])))"
  unfolding makeTransaction_def gasLimit_unbound option.case by (rule refl)

text \<open>
  No invocation retries: it submits at most once, and a failure of the \<open>try\<close> block
  with the message \<open>nonce too low\<close> at an attempt below 3 ends in the ReferenceError.
\<close>

lemma makeTransaction_try_submits_at_most_once:
  "length (filter (\<lambda>e. \<exists>raw. e = SendRawTransaction raw)
            (snd (snd (makeTransaction_try w config_gasLimit data from privatekey to attempt n))))
     \<le> 1"
  by (auto simp: makeTransaction_try_def resolve_gasLimit_def
        split: prod.splits sum.splits)

lemma makeTransaction_submits_at_most_once:
  "length (filter (\<lambda>e. \<exists>raw. e = SendRawTransaction raw)
            (snd (snd (makeTransaction w retry config_gasLimit data from privatekey to attempt n))))
     \<le> 1"
  using makeTransaction_try_submits_at_most_once
          [of w config_gasLimit data "from" privatekey to attempt n]
  by (auto simp: makeTransaction_unfold split: prod.splits sum.splits)

lemma makeTransaction_collision:
  assumes "makeTransaction_try w config_gasLimit data from privatekey to attempt n
             = (Inl error, n', ev)"
      and "attempt < 3" and "message error = ''nonce too low''"
  shows "makeTransaction w retry config_gasLimit data from privatekey to attempt n
           = (Inl (ReferenceError ''gasLimit is not defined''), n', ev @ [LogError error])"
  using assms by (simp add: makeTransaction_unfold)

lemma makeTransaction_other_error:
  assumes "makeTransaction_try w config_gasLimit data from privatekey to attempt n
             = (Inl error, n', ev)"
      and "\<not> (attempt < 3 \<and> message error = ''nonce too low'')"
  shows "makeTransaction w retry config_gasLimit data from privatekey to attempt n
           = (Inl error, n', ev @ [LogError error])"
  using assms by (auto simp: makeTransaction_unfold)

text \<open>
  A hash that an invocation returns is the node's answer to the one transaction it
  submitted, whose nonce is the count it fetched itself plus its attempt offset.
\<close>

lemma makeTransaction_returned_hash:
  assumes "makeTransaction w retry config_gasLimit data from privatekey to attempt n
             = (Inr txhash, n', ev)"
  shows "\<exists>gasLimit n1 ev1 count n2 gasprice n3 raw.
           resolve_gasLimit w config_gasLimit data from to n = (Inr gasLimit, n1, ev1)
         \<and> eth_getTransactionCount w from n1 = (Inr count, n2)
         \<and> eth_gasPrice w n2 = (Inr gasprice, n3)
         \<and> serialize w \<lparr>tx_nonce = toHex w (js_add count attempt),
                         tx_gasPrice = toHex w gasprice,
                         tx_gasLimit = toHex w gasLimit, tx_to = to, tx_data = data\<rparr>
                       privatekey = Inr raw
         \<and> eth_sendRawTransaction w (''0x'' @ raw) n3 = (Inr txhash, n')
         \<and> ev = ev1 @ [GetTransactionCount from, GasPrice, SendRawTransaction (''0x'' @ raw)]"
  using assms
  by (auto simp: makeTransaction_unfold makeTransaction_try_def
        split: prod.splits sum.splits if_splits)

text \<open>
  The gas price is asked for at the node state the count read left, and is not asked
  for at all when the count read throws.
\<close>

lemma gasPrice_waits_for_count:
  assumes "resolve_gasLimit w config_gasLimit data from to n = (Inr gasLimit, n1, ev1)"
      and "eth_getTransactionCount w from n1 = (Inl err, n2)"
  shows "makeTransaction_try w config_gasLimit data from privatekey to attempt n
           = (Inl err, n2, ev1 @ [GetTransactionCount from])"
  using assms by (simp add: makeTransaction_try_def)

text \<open>
  One invocation of \<open>waitForTransactionReceipt\<close>, written out over the answers of the
  node: \<open>r1\<close> to the receipt query, \<open>r2\<close> to the probe, and the outcome of the next
  invocation from either node state.
\<close>

lemma waitForTransactionReceipt_cases:
  assumes "eth_getTransactionReceipt w txhash n = (r1, n1)"
      and "eth_getTransaction w txhash n1 = (r2, n2)"
      and "waitForTransactionReceipt w txhash (time + 5000) n1 = (res3, n3, ev3)"
      and "waitForTransactionReceipt w txhash (time + 5000) n2 = (res4, n4, ev4)"
  shows "waitForTransactionReceipt w txhash time n =
     (case r1 of
        Inl err \<Rightarrow> (Inl err, n1, [LogTracking txhash time, GetTransactionReceipt txhash])
      | Inr receipt \<Rightarrow>
          if time > 3600000
          then (Inl not_mined_error, n1, [LogTracking txhash time, GetTransactionReceipt txhash])
          else if 60000 < time \<and> time \<le> 70000 then
            (case r2 of
               Inl err \<Rightarrow> (Inl err, n2, [LogTracking txhash time, GetTransactionReceipt txhash,
                                         GetTransaction txhash])
             | Inr None \<Rightarrow> (Inl not_reached_error, n2,
                             [LogTracking txhash time, GetTransactionReceipt txhash,
                              GetTransaction txhash])
             | Inr (Some td) \<Rightarrow>
                 (case receipt of
                    None \<Rightarrow> (res4, n4, LogTracking txhash time # GetTransactionReceipt txhash #
                                       GetTransaction txhash # Timeout 5000 # ev4)
                  | Some r \<Rightarrow> (Inr r, n2, [LogTracking txhash time, GetTransactionReceipt txhash,
                                          GetTransaction txhash, LogCompleted txhash])))
          else
            (case receipt of
               None \<Rightarrow> (res3, n3, LogTracking txhash time # GetTransactionReceipt txhash #
                                  Timeout 5000 # ev3)
             | Some r \<Rightarrow> (Inr r, n1, [LogTracking txhash time, GetTransactionReceipt txhash,
                                     LogCompleted txhash])))"
  by (subst waitForTransactionReceipt.simps, cases r1; cases r2)
     (simp_all add: assms getTransactionReceipt_def propagation_check_def split: option.splits)



text \<open>
  A run on a node that never has a receipt and always knows the transaction, started at
  the \<open>k\<close>-th multiple of 5000.
\<close>

lemma pending_run:
  assumes H1: "\<forall>m. fst (eth_getTransactionReceipt w txhash m) = Inr None"
      and H2: "\<forall>m. \<exists>td. fst (eth_getTransaction w txhash m) = Inr (Some td)"
      and "k \<le> 721"
  shows "fst (waitForTransactionReceipt w txhash (5000 * int k) n) = Inl not_mined_error
       \<and> poll_times (snd (snd (waitForTransactionReceipt w txhash (5000 * int k) n)))
           = map (\<lambda>j. 5000 * int j) [k..<722]
       \<and> probe_times c (snd (snd (waitForTransactionReceipt w txhash (5000 * int k) n)))
           = filter (\<lambda>x. 5000 * int k \<le> x) [65000, 70000]"
  using assms(3)
proof (induction "721 - k" arbitrary: k n c)
  case 0
  then have k: "k = 721" by simp
  obtain r1 n1 where R: "eth_getTransactionReceipt w txhash n = (r1, n1)"
    by (cases "eth_getTransactionReceipt w txhash n")
  have r1: "r1 = Inr None" using H1 R by (metis fst_conv)
  obtain r2 n2 where T: "eth_getTransaction w txhash n1 = (r2, n2)"
    by (cases "eth_getTransaction w txhash n1")
  obtain res3 n3 ev3 where rec1:
    "waitForTransactionReceipt w txhash (5000 * int k + 5000) n1 = (res3, n3, ev3)"
    by (cases "waitForTransactionReceipt w txhash (5000 * int k + 5000) n1")
  obtain res4 n4 ev4 where rec2:
    "waitForTransactionReceipt w txhash (5000 * int k + 5000) n2 = (res4, n4, ev4)"
    by (cases "waitForTransactionReceipt w txhash (5000 * int k + 5000) n2")
  show ?case
    unfolding waitForTransactionReceipt_cases [OF R T rec1 rec2]
    by (simp add: r1 k)
next
  case (Suc d)
  then have k: "k < 721" by simp
  obtain r1 n1 where R: "eth_getTransactionReceipt w txhash n = (r1, n1)"
    by (cases "eth_getTransactionReceipt w txhash n")
  have r1: "r1 = Inr None" using H1 R by (metis fst_conv)
  obtain r2 n2 where T: "eth_getTransaction w txhash n1 = (r2, n2)"
    by (cases "eth_getTransaction w txhash n1")
  obtain td where r2: "r2 = Inr (Some td)" using H2 T by (metis fst_conv)
  obtain res3 n3 ev3 where rec1:
    "waitForTransactionReceipt w txhash (5000 * int k + 5000) n1 = (res3, n3, ev3)"
    by (cases "waitForTransactionReceipt w txhash (5000 * int k + 5000) n1")
  obtain res4 n4 ev4 where rec2:
    "waitForTransactionReceipt w txhash (5000 * int k + 5000) n2 = (res4, n4, ev4)"
    by (cases "waitForTransactionReceipt w txhash (5000 * int k + 5000) n2")
  have next_time: "5000 * int (Suc k) = 5000 * int k + 5000" by simp
  have d: "d = 721 - Suc k" "Suc k \<le> 721" using Suc.hyps(2) k by simp_all
  have IH1: "res3 = Inl not_mined_error
       \<and> poll_times ev3 = map (\<lambda>j. 5000 * int j) [Suc k..<722]
       \<and> probe_times c' ev3 = filter (\<lambda>x. 5000 * int k + 5000 \<le> x) [65000, 70000]" for c'
    using Suc.hyps(1) [OF d, of n1 c'] rec1 unfolding next_time by simp
  have IH2: "res4 = Inl not_mined_error
       \<and> poll_times ev4 = map (\<lambda>j. 5000 * int j) [Suc k..<722]
       \<and> probe_times c' ev4 = filter (\<lambda>x. 5000 * int k + 5000 \<le> x) [65000, 70000]" for c'
    using Suc.hyps(1) [OF d, of n2 c'] rec2 unfolding next_time by simp
  have upt: "[k..<722] = k # [Suc k..<722]"
    using k by (simp add: upt_conv_Cons)
  have small: "\<not> 3600000 < 5000 * int k" using k by simp
  consider (a) "k = 13" | (b) "k = 14" | (c) "k < 13" | (d) "14 < k" by linarith
  then show ?case
  proof cases
    case a
    show ?thesis
      unfolding waitForTransactionReceipt_cases [OF R T rec1 rec2] r1 r2 upt
      using IH2 [of "5000 * int k"] a by simp
  next
    case b
    show ?thesis
      unfolding waitForTransactionReceipt_cases [OF R T rec1 rec2] r1 r2 upt
      using IH2 [of "5000 * int k"] b by simp
  next
    case c
    show ?thesis
      unfolding waitForTransactionReceipt_cases [OF R T rec1 rec2] r1 r2 upt
      using IH1 [of "5000 * int k"] c small by simp
  next
    case d
    show ?thesis
      unfolding waitForTransactionReceipt_cases [OF R T rec1 rec2] r1 r2 upt
      using IH1 [of "5000 * int k"] d small by simp
  qed
qed

text \<open>
  The same run in full: its error, the node state it ends in, and every event of it.
\<close>

lemma pending_run_trace:
  assumes H1: "\<forall>m. fst (eth_getTransactionReceipt w txhash m) = Inr None"
      and H2: "\<forall>m. \<exists>td. fst (eth_getTransaction w txhash m) = Inr (Some td)"
      and "k \<le> 721"
  shows "waitForTransactionReceipt w txhash (5000 * int k) n =
           (Inl not_mined_error,
            snd (eth_getTransactionReceipt w txhash
                   (fold (\<lambda>j. pending_node w txhash (5000 * int j)) [k..<721] n)),
            concat (map (\<lambda>j. pending_poll txhash (5000 * int j)) [k..<721]) @
              [LogTracking txhash 3605000, GetTransactionReceipt txhash])"
  using assms(3)
proof (induction "721 - k" arbitrary: k n)
  case 0
  then have k: "k = 721" by simp
  obtain r1 n1 where R: "eth_getTransactionReceipt w txhash n = (r1, n1)"
    by (cases "eth_getTransactionReceipt w txhash n")
  have r1: "r1 = Inr None" using H1 R by (metis fst_conv)
  obtain r2 n2 where T: "eth_getTransaction w txhash n1 = (r2, n2)"
    by (cases "eth_getTransaction w txhash n1")
  obtain res3 n3 ev3 where rec1:
    "waitForTransactionReceipt w txhash (5000 * int k + 5000) n1 = (res3, n3, ev3)"
    by (cases "waitForTransactionReceipt w txhash (5000 * int k + 5000) n1")
  obtain res4 n4 ev4 where rec2:
    "waitForTransactionReceipt w txhash (5000 * int k + 5000) n2 = (res4, n4, ev4)"
    by (cases "waitForTransactionReceipt w txhash (5000 * int k + 5000) n2")
  show ?case
    unfolding waitForTransactionReceipt_cases [OF R T rec1 rec2]
    by (simp add: r1 k R)
next
  case (Suc d)
  then have k: "k < 721" by simp
  obtain r1 n1 where R: "eth_getTransactionReceipt w txhash n = (r1, n1)"
    by (cases "eth_getTransactionReceipt w txhash n")
  have r1: "r1 = Inr None" using H1 R by (metis fst_conv)
  obtain r2 n2 where T: "eth_getTransaction w txhash n1 = (r2, n2)"
    by (cases "eth_getTransaction w txhash n1")
  obtain td where r2: "r2 = Inr (Some td)" using H2 T by (metis fst_conv)
  obtain res3 n3 ev3 where rec1:
    "waitForTransactionReceipt w txhash (5000 * int k + 5000) n1 = (res3, n3, ev3)"
    by (cases "waitForTransactionReceipt w txhash (5000 * int k + 5000) n1")
  obtain res4 n4 ev4 where rec2:
    "waitForTransactionReceipt w txhash (5000 * int k + 5000) n2 = (res4, n4, ev4)"
    by (cases "waitForTransactionReceipt w txhash (5000 * int k + 5000) n2")
  have next_time: "5000 * int (Suc k) = 5000 * int k + 5000" by simp
  have d: "d = 721 - Suc k" "Suc k \<le> 721" using Suc.hyps(2) k by simp_all
  have IH1: "(res3, n3, ev3) =
           (Inl not_mined_error,
            snd (eth_getTransactionReceipt w txhash
                   (fold (\<lambda>j. pending_node w txhash (5000 * int j)) [Suc k..<721] n1)),
            concat (map (\<lambda>j. pending_poll txhash (5000 * int j)) [Suc k..<721]) @
              [LogTracking txhash 3605000, GetTransactionReceipt txhash])"
    using Suc.hyps(1) [OF d, of n1] rec1 unfolding next_time by simp
  have IH2: "(res4, n4, ev4) =
           (Inl not_mined_error,
            snd (eth_getTransactionReceipt w txhash
                   (fold (\<lambda>j. pending_node w txhash (5000 * int j)) [Suc k..<721] n2)),
            concat (map (\<lambda>j. pending_poll txhash (5000 * int j)) [Suc k..<721]) @
              [LogTracking txhash 3605000, GetTransactionReceipt txhash])"
    using Suc.hyps(1) [OF d, of n2] rec2 unfolding next_time by simp
  have upt: "[k..<721] = k # [Suc k..<721]"
    using k by (simp add: upt_conv_Cons)
  have small: "\<not> 3600000 < 5000 * int k" using k by simp
  consider (a) "k = 13" | (b) "k = 14" | (c) "k < 13" | (d) "14 < k" by linarith
  then show ?case
  proof cases
    case a
    show ?thesis
      unfolding waitForTransactionReceipt_cases [OF R T rec1 rec2] r1 r2 upt
      using IH2 a by (simp add: pending_node_def pending_poll_def R T)
  next
    case b
    show ?thesis
      unfolding waitForTransactionReceipt_cases [OF R T rec1 rec2] r1 r2 upt
      using IH2 b by (simp add: pending_node_def pending_poll_def R T)
  next
    case c
    show ?thesis
      unfolding waitForTransactionReceipt_cases [OF R T rec1 rec2] r1 r2 upt
      using IH1 c small by (simp add: pending_node_def pending_poll_def R T)
  next
    case d
    show ?thesis
      unfolding waitForTransactionReceipt_cases [OF R T rec1 rec2] r1 r2 upt
      using IH1 d small by (simp add: pending_node_def pending_poll_def R T)
  qed
qed

text \<open>On \<open>base_node\<close> every such poll moves the counter by one.\<close>

lemma base_node_pending_polls:
  "fold (\<lambda>j. pending_node base_node txhash (5000 * int j)) ks n = n + length ks"
  by (induction ks arbitrary: n) (simp_all add: pending_node_def base_node_def)

section \<open>The status query\<close>

text \<open>
  Claim C1, the decision table of the status query: NOT_REACHED or PENDING for an absent
  receipt, OUT_OF_GAS or REVERTED for a failed one, SUCCESS otherwise. The code does not
  get as far as the table's first four rows. Evaluated on three nodes, with a
  \<open>getTransaction\<close> body that would ask the node: a pending transaction the node does not
  know (NOT_REACHED by the table), one it knows (PENDING), and a failed one that used all
  its gas (OUT_OF_GAS). Each time the controller answers with the failure response,
  carrying the TypeError of the call to the missing member.
\<close>

theorem getTransactionStatus_table_rows_fail:
  "fst (getTransactionStatus forgetful_node (node_getTransaction forgetful_node) ''0xfeed'' 0)
     = Responder_operationFailed (TypeError ''Ethereum.getTransaction is not a function'')
   \<and> fst (getTransactionStatus base_node (node_getTransaction base_node) ''0xfeed'' 0)
     = Responder_operationFailed (TypeError ''Ethereum.getTransaction is not a function'')
   \<and> fst (getTransactionStatus (mining_node 0 failed_receipt)
             (node_getTransaction (mining_node 0 failed_receipt)) ''0xfeed'' 0)
     = Responder_operationFailed (TypeError ''Ethereum.getTransaction is not a function'')"
  by (simp add: getTransactionStatus_def call_member_def getTransactionReceipt_def
        getTransaction_not_member getTransactionReceipt_member
        forgetful_node_def mining_node_def base_node_def failed_receipt_def)

text \<open>
  Claim C4: the exported object has no member \<open>getTransaction\<close>; so whenever the receipt
  is absent or carries status \<open>0x0\<close> the query ends in the failure response with that
  TypeError, whatever a member of that name would have answered; and every query ends
  either in the SUCCESS entry or in a failure response, so the four other entries of the
  table are never sent.
\<close>

theorem getTransactionStatus_getTransaction_missing:
  "''getTransaction'' \<notin> set Ethereum_members
   \<and> (fst (eth_getTransactionReceipt w txhash n) = Inr None
        \<or> (\<exists>r. fst (eth_getTransactionReceipt w txhash n) = Inr (Some r)
                \<and> receipt.status r = Some ''0x0'')
      \<longrightarrow> fst (getTransactionStatus w g txhash n)
            = Responder_operationFailed (TypeError ''Ethereum.getTransaction is not a function''))
   \<and> (fst (getTransactionStatus w g txhash n) = Responder_success (status_table SUCCESS)
        \<or> (\<exists>e. fst (getTransactionStatus w g txhash n) = Responder_operationFailed e))
   \<and> (\<forall>k \<in> {NOT_REACHED, PENDING, OUTOFGAS, REVERTED}.
         fst (getTransactionStatus w g txhash n) \<noteq> Responder_success (status_table k))"
  by (auto simp: getTransactionStatus_def call_member_def getTransactionReceipt_def
        getTransaction_not_member getTransactionReceipt_member
        split: prod.splits sum.splits option.splits)

text \<open>Both cases of C4 on a node: an absent receipt, and a receipt with status \<open>0x0\<close>.\<close>

theorem getTransactionStatus_getTransaction_missing_witness:
  "fst (eth_getTransactionReceipt base_node ''0xfeed'' 0) = Inr None
   \<and> fst (getTransactionStatus base_node (node_getTransaction base_node) ''0xfeed'' 0)
       = Responder_operationFailed (TypeError ''Ethereum.getTransaction is not a function'')
   \<and> fst (eth_getTransactionReceipt (mining_node 0 failed_receipt) ''0xfeed'' 0)
       = Inr (Some failed_receipt)
   \<and> receipt.status failed_receipt = Some ''0x0''
   \<and> fst (getTransactionStatus (mining_node 0 failed_receipt) (node_getTransaction base_node)
             ''0xfeed'' 0)
       = Responder_operationFailed (TypeError ''Ethereum.getTransaction is not a function'')"
  using getTransactionStatus_getTransaction_missing
          [of base_node "''0xfeed''" 0 "node_getTransaction base_node"]
        getTransactionStatus_getTransaction_missing
          [of "mining_node 0 failed_receipt" "''0xfeed''" 0 "node_getTransaction base_node"]
  by (simp add: base_node_def mining_node_def failed_receipt_def)

section \<open>Submission\<close>

text \<open>
  Claim C2, the nonce of a retried submission: after a nonce collision the retry is to
  go out with the base nonce plus the attempt offset, and the hash returned to belong to
  that transaction. On a node in a nonce race, which rejects the first submission as
  \<open>nonce too low\<close> and would accept the next, no second transaction goes out at all:
  the run makes its one submission with nonce \<open>0x7\<close>, logs the node's error, and ends in
  the ReferenceError for \<open>gasLimit\<close>; no hash is returned. This holds whatever the retry
  call would have done.
\<close>

theorem makeTransaction_race_not_retried:
  "makeTransaction racing_node retry None payload alice alice_key (Some bob) 0 0 =
     (Inl (ReferenceError ''gasLimit is not defined''), 1,
      [EstimateGas payload alice (Some bob), GetTransactionCount alice, GasPrice,
       SendRawTransaction ''0x[nonce 0x7, gasPrice 0x14, gasLimit 0x5208]'',
       LogError (Error ''nonce too low'')])
   \<and> fst (eth_sendRawTransaction racing_node
             ''0x[nonce 0x8, gasPrice 0x14, gasLimit 0x5208]'' 1) = Inr ''0xfeed''"
  by (simp add: makeTransaction_unfold makeTransaction_try_def resolve_gasLimit_def
        racing_node_def base_node_def plain_serialize_def number_toHex_examples
        js_add_examples)

text \<open>
  Claim C3, the retry policy: up to three retries on \<open>nonce too low\<close>, then the
  underlying error. On a node that rejects every submission as a nonce collision the
  first attempt is the only one: one submission, the error logged, and out of the
  \<open>catch\<close> block comes a ReferenceError for \<open>gasLimit\<close>, not the node's error. This
  holds whatever the retry call would have done.
\<close>

theorem makeTransaction_collision_not_retried:
  "makeTransaction collision_node retry None ''0x00'' ''0xaa'' ''key'' None 0 0 =
     (Inl (ReferenceError ''gasLimit is not defined''), 0,
      [EstimateGas ''0x00'' ''0xaa'' None, GetTransactionCount ''0xaa'', GasPrice,
       SendRawTransaction ''0x[nonce 0x7, gasPrice 0x14, gasLimit 0x5208]'',
       LogError (Error ''nonce too low'')])"
  by (simp add: makeTransaction_unfold makeTransaction_try_def resolve_gasLimit_def
        collision_node_def base_node_def plain_serialize_def number_toHex_examples
        js_add_examples)

text \<open>
  Claim C10, the two reads before signing as two requests in flight together, neither
  waiting for the other. The reads are made one after the other. On a node whose
  transaction count cannot be read the run asks for the count, the read throws, and no
  gas price is ever asked for; and on a node that answers both, the gas price is asked for
  after the count has come back.
\<close>

theorem makeTransaction_reads_in_sequence:
  "makeTransaction countless_node retry None payload alice alice_key (Some bob) 0 0 =
     (Inl (Error ''Invalid JSON RPC response''), 0,
      [EstimateGas payload alice (Some bob), GetTransactionCount alice,
       LogError (Error ''Invalid JSON RPC response'')])
   \<and> makeTransaction base_node retry None payload alice alice_key (Some bob) 0 0 =
     (Inr ''0xfeed'', 0,
      [EstimateGas payload alice (Some bob), GetTransactionCount alice, GasPrice,
       SendRawTransaction ''0x[nonce 0x7, gasPrice 0x14, gasLimit 0x5208]''])"
  by (simp add: makeTransaction_unfold makeTransaction_try_def resolve_gasLimit_def
        countless_node_def base_node_def plain_serialize_def number_toHex_examples
        js_add_examples)

section \<open>Tracking\<close>

text \<open>
  Claim C5, as the code has it: when the receipt query of an invocation answers a receipt
  and the elapsed time is at most 3,600,000, the invocation ends there, with no sleep and
  no further poll. Outside the window above 60,000 up to 70,000 it returns that receipt.
  Inside the window it makes the propagation probe first, whose answer is \<open>probe\<close>: if
  the probe finds the transaction the receipt is returned, if it finds none the
  propagation error is thrown, and if the probe itself throws, its error is passed on.
\<close>

theorem waitForTransactionReceipt_receipt_present:
  assumes "eth_getTransactionReceipt w txhash n = (Inr (Some r), n1)"
      and "time \<le> 3600000"
      and "eth_getTransaction w txhash n1 = (probe, n2)"
  shows "waitForTransactionReceipt w txhash time n =
     (if 60000 < time \<and> time \<le> 70000 then
        (case probe of
           Inl err \<Rightarrow>
             (Inl err, n2,
              [LogTracking txhash time, GetTransactionReceipt txhash, GetTransaction txhash])
         | Inr None \<Rightarrow>
             (Inl not_reached_error, n2,
              [LogTracking txhash time, GetTransactionReceipt txhash, GetTransaction txhash])
         | Inr (Some td) \<Rightarrow>
             (Inr r, n2,
              [LogTracking txhash time, GetTransactionReceipt txhash, GetTransaction txhash,
               LogCompleted txhash]))
      else
        (Inr r, n1,
         [LogTracking txhash time, GetTransactionReceipt txhash, LogCompleted txhash]))"
proof -
  obtain res3 n3 ev3 where rec1:
    "waitForTransactionReceipt w txhash (time + 5000) n1 = (res3, n3, ev3)"
    by (cases "waitForTransactionReceipt w txhash (time + 5000) n1")
  obtain res4 n4 ev4 where rec2:
    "waitForTransactionReceipt w txhash (time + 5000) n2 = (res4, n4, ev4)"
    by (cases "waitForTransactionReceipt w txhash (time + 5000) n2")
  show ?thesis
    unfolding waitForTransactionReceipt_cases [OF assms(1) assms(3) rec1 rec2]
    using assms(2) by (simp split: sum.splits option.splits)
qed

text \<open>
  A mined transaction on three nodes: polled outside the window; polled inside it on a
  node that knows the transaction; and polled inside it on a node that does not.
\<close>

theorem waitForTransactionReceipt_receipt_present_witness:
  "waitForTransactionReceipt (mining_node 0 mined_receipt) ''0xfeed'' 0 0 =
     (Inr mined_receipt, 1,
      [LogTracking ''0xfeed'' 0, GetTransactionReceipt ''0xfeed'', LogCompleted ''0xfeed''])
   \<and> waitForTransactionReceipt (mining_node 0 mined_receipt) ''0xfeed'' 65000 0 =
     (Inr mined_receipt, 1,
      [LogTracking ''0xfeed'' 65000, GetTransactionReceipt ''0xfeed'',
       GetTransaction ''0xfeed'', LogCompleted ''0xfeed''])
   \<and> waitForTransactionReceipt
        ((mining_node 0 mined_receipt)\<lparr>eth_getTransaction := (\<lambda>txhash k. (Inr None, k))\<rparr>)
        ''0xfeed'' 65000 0 =
     (Inl not_reached_error, 1,
      [LogTracking ''0xfeed'' 65000, GetTransactionReceipt ''0xfeed'',
       GetTransaction ''0xfeed''])"
  using waitForTransactionReceipt_receipt_present
          [of "mining_node 0 mined_receipt" "''0xfeed''" 0 mined_receipt 1 0
              "Inr (Some \<lparr>gas = 50000\<rparr>)" 1]
        waitForTransactionReceipt_receipt_present
          [of "mining_node 0 mined_receipt" "''0xfeed''" 0 mined_receipt 1 65000
              "Inr (Some \<lparr>gas = 50000\<rparr>)" 1]
        waitForTransactionReceipt_receipt_present
          [of "(mining_node 0 mined_receipt)\<lparr>eth_getTransaction := (\<lambda>txhash k. (Inr None, k))\<rparr>"
              "''0xfeed''" 0 mined_receipt 1 65000 "Inr None" 1]
  by (simp add: mining_node_def base_node_def)

text \<open>
  Against C5 as stated: past the hour the receipt query answers a receipt and the
  invocation throws the timeout error all the same; and inside the window a receipt is
  answered, the probe finds no transaction, and the invocation throws the propagation
  error.
\<close>

theorem waitForTransactionReceipt_receipt_not_returned:
  "fst (eth_getTransactionReceipt (mining_node 0 mined_receipt) ''0xfeed'' 0)
     = Inr (Some mined_receipt)
   \<and> fst (waitForTransactionReceipt (mining_node 0 mined_receipt) ''0xfeed'' 3605000 0)
       = Inl not_mined_error
   \<and> fst (waitForTransactionReceipt
            ((mining_node 0 mined_receipt)\<lparr>eth_getTransaction := (\<lambda>txhash k. (Inr None, k))\<rparr>)
            ''0xfeed'' 65000 0)
       = Inl not_reached_error"
  by (simp add: waitForTransactionReceipt.simps getTransactionReceipt_def propagation_check_def
        mining_node_def base_node_def)




text \<open>
  Claim C7, as the code has it: in a run from elapsed 0 in which the receipt stays absent
  and the propagation probe, whenever it is made, finds the transaction, the run is 721
  polls that each log the elapsed time, query the receipt, probe at 65,000 and at 70,000,
  and sleep 5000 ms, followed by a last poll at 3,605,000 that logs, queries the receipt
  and throws the timeout error. So the polls are those at 0, 5000, and so on up to
  3,605,000; every poll but the last is at an elapsed value of at most 3,600,000; the
  last, at the first value above it, throws; and nothing follows it. The node ends in the
  state that these queries, in this order, leave it in.
\<close>

theorem waitForTransactionReceipt_timeout:
  assumes "\<forall>m. fst (eth_getTransactionReceipt w txhash m) = Inr None"
      and "\<forall>m. \<exists>td. fst (eth_getTransaction w txhash m) = Inr (Some td)"
  shows "waitForTransactionReceipt w txhash 0 n =
           (Inl not_mined_error,
            snd (eth_getTransactionReceipt w txhash
                   (fold (\<lambda>k. pending_node w txhash (5000 * int k)) [0..<721] n)),
            concat (map (\<lambda>k. pending_poll txhash (5000 * int k)) [0..<721]) @
              [LogTracking txhash 3605000, GetTransactionReceipt txhash])
       \<and> fst (waitForTransactionReceipt w txhash 0 n) = Inl not_mined_error
       \<and> poll_times (snd (snd (waitForTransactionReceipt w txhash 0 n)))
           = map (\<lambda>k. 5000 * int k) [0..<722]
       \<and> last (poll_times (snd (snd (waitForTransactionReceipt w txhash 0 n)))) = 3605000
       \<and> (\<forall>t \<in> set (butlast (poll_times (snd (snd (waitForTransactionReceipt w txhash 0 n))))).
             t \<le> 3600000)"
proof -
  have trace: "waitForTransactionReceipt w txhash 0 n =
           (Inl not_mined_error,
            snd (eth_getTransactionReceipt w txhash
                   (fold (\<lambda>k. pending_node w txhash (5000 * int k)) [0..<721] n)),
            concat (map (\<lambda>k. pending_poll txhash (5000 * int k)) [0..<721]) @
              [LogTracking txhash 3605000, GetTransactionReceipt txhash])"
    using pending_run_trace [OF assms, of 0 n] by simp
  have run: "fst (waitForTransactionReceipt w txhash 0 n) = Inl not_mined_error
       \<and> poll_times (snd (snd (waitForTransactionReceipt w txhash 0 n)))
           = map (\<lambda>k. 5000 * int k) [0..<722]"
    using pending_run [OF assms, of 0 n 0] by simp
  have "[0..<722] = [0..<721] @ [721]"
    using upt_Suc_append [of 0 721] by simp
  then have split:
    "map (\<lambda>k. 5000 * int k) [0..<722] = map (\<lambda>k. 5000 * int k) [0..<721] @ [3605000]"
    by simp
  have polls: "last (poll_times (snd (snd (waitForTransactionReceipt w txhash 0 n)))) = 3605000
       \<and> (\<forall>t \<in> set (butlast (poll_times (snd (snd (waitForTransactionReceipt w txhash 0 n))))).
             t \<le> 3600000)"
    unfolding conjunct2 [OF run] split by auto
  from trace run polls show ?thesis by blast
qed

text \<open>
  On \<open>base_node\<close>, which counts its receipt queries: the run ends in the timeout error
  with 722 queries answered, the last poll at 3,605,000.
\<close>

theorem waitForTransactionReceipt_timeout_witness:
  "(\<forall>m. fst (eth_getTransactionReceipt base_node ''0xfeed'' m) = Inr None)
   \<and> (\<forall>m. \<exists>td. fst (eth_getTransaction base_node ''0xfeed'' m) = Inr (Some td))
   \<and> fst (waitForTransactionReceipt base_node ''0xfeed'' 0 0) = Inl not_mined_error
   \<and> fst (snd (waitForTransactionReceipt base_node ''0xfeed'' 0 0)) = 722
   \<and> last (poll_times (snd (snd (waitForTransactionReceipt base_node ''0xfeed'' 0 0))))
       = 3605000"
proof -
  have h1: "\<forall>m. fst (eth_getTransactionReceipt base_node ''0xfeed'' m) = Inr None"
    by (simp add: base_node_def)
  have h2: "\<forall>m. \<exists>td. fst (eth_getTransaction base_node ''0xfeed'' m) = Inr (Some td)"
    by (simp add: base_node_def)
  note timeout = waitForTransactionReceipt_timeout [OF h1 h2, of 0]
  have "fst (snd (waitForTransactionReceipt base_node ''0xfeed'' 0 0)) =
          snd (eth_getTransactionReceipt base_node ''0xfeed''
                 (fold (\<lambda>k. pending_node base_node ''0xfeed'' (5000 * int k)) [0..<721] 0))"
    using timeout by simp
  also have "\<dots> = 722"
    unfolding base_node_pending_polls by (simp add: base_node_def)
  finally have state: "fst (snd (waitForTransactionReceipt base_node ''0xfeed'' 0 0)) = 722" .
  from timeout h1 h2 state show ?thesis by blast
qed

text \<open>
  Against C7 as stated: a node that has no receipt and no record of the transaction. The
  receipt stays absent, and the run ends at its fourteenth poll, at 65,000, in the
  propagation error; the hour is never reached.
\<close>

theorem waitForTransactionReceipt_unknown_transaction:
  "(\<forall>m. fst (eth_getTransactionReceipt forgetful_node ''0xfeed'' m) = Inr None)
   \<and> fst (waitForTransactionReceipt forgetful_node ''0xfeed'' 0 0) = Inl not_reached_error
   \<and> poll_times (snd (snd (waitForTransactionReceipt forgetful_node ''0xfeed'' 0 0)))
       = [0, 5000, 10000, 15000, 20000, 25000, 30000, 35000, 40000, 45000, 50000, 55000,
          60000, 65000]"
  by (simp add: waitForTransactionReceipt.simps getTransactionReceipt_def propagation_check_def
        forgetful_node_def base_node_def)

text \<open>
  Claim C8, as the code has it: an invocation of \<open>waitForTransactionReceipt\<close> returns a
  receipt just as a receipt query of the node answered it, its status field being
  whatever the node gave, for the function never looks at it; or else it throws the
  timeout error, the propagation error, or an error thrown by one of the two node
  queries.
\<close>

theorem waitForTransactionReceipt_outcomes:
  "(case fst (waitForTransactionReceipt w txhash time n) of
      Inr r \<Rightarrow> (\<exists>m. fst (eth_getTransactionReceipt w txhash m) = Inr (Some r))
    | Inl e \<Rightarrow> e = not_mined_error \<or> e = not_reached_error
         \<or> (\<exists>m. fst (eth_getTransactionReceipt w txhash m) = Inl e)
         \<or> (\<exists>m. fst (eth_getTransaction w txhash m) = Inl e))"
proof (induction "nat (3605000 - time)" arbitrary: time n rule: less_induct)
  case less
  obtain r1 n1 where R: "eth_getTransactionReceipt w txhash n = (r1, n1)"
    by (cases "eth_getTransactionReceipt w txhash n")
  have a1: "\<exists>m. fst (eth_getTransactionReceipt w txhash m) = r1"
    using R by (metis fst_conv)
  obtain r2 n2 where T: "eth_getTransaction w txhash n1 = (r2, n2)"
    by (cases "eth_getTransaction w txhash n1")
  have a2: "\<exists>m. fst (eth_getTransaction w txhash m) = r2"
    using T by (metis fst_conv)
  obtain res3 n3 ev3 where rec1:
    "waitForTransactionReceipt w txhash (time + 5000) n1 = (res3, n3, ev3)"
    by (cases "waitForTransactionReceipt w txhash (time + 5000) n1")
  obtain res4 n4 ev4 where rec2:
    "waitForTransactionReceipt w txhash (time + 5000) n2 = (res4, n4, ev4)"
    by (cases "waitForTransactionReceipt w txhash (time + 5000) n2")
  have IH1: "time \<le> 3600000 \<Longrightarrow>
      (case res3 of
         Inr r \<Rightarrow> (\<exists>m. fst (eth_getTransactionReceipt w txhash m) = Inr (Some r))
       | Inl e \<Rightarrow> e = not_mined_error \<or> e = not_reached_error
           \<or> (\<exists>m. fst (eth_getTransactionReceipt w txhash m) = Inl e)
           \<or> (\<exists>m. fst (eth_getTransaction w txhash m) = Inl e))"
    using less.hyps [of "time + 5000" n1] rec1 by simp
  have IH2: "time \<le> 3600000 \<Longrightarrow>
      (case res4 of
         Inr r \<Rightarrow> (\<exists>m. fst (eth_getTransactionReceipt w txhash m) = Inr (Some r))
       | Inl e \<Rightarrow> e = not_mined_error \<or> e = not_reached_error
           \<or> (\<exists>m. fst (eth_getTransactionReceipt w txhash m) = Inl e)
           \<or> (\<exists>m. fst (eth_getTransaction w txhash m) = Inl e))"
    using less.hyps [of "time + 5000" n2] rec2 by simp
  show ?case
    unfolding waitForTransactionReceipt_cases [OF R T rec1 rec2]
    using a1 a2 IH1 IH2
    by (cases r1; cases r2) (auto split: option.splits)
qed

text \<open>
  Against C8 as stated: a node whose receipts carry no status field. The run returns
  its receipt, and the receipt's status is absent.
\<close>

theorem waitForTransactionReceipt_bare_receipt:
  "fst (waitForTransactionReceipt (mining_node 0 bare_receipt) ''0xfeed'' 0 0) = Inr bare_receipt
   \<and> receipt.status bare_receipt = None"
  by (simp add: waitForTransactionReceipt.simps getTransactionReceipt_def propagation_check_def
        mining_node_def base_node_def bare_receipt_def)

section \<open>The escrow contract\<close>




end
